theory Spec2Isabelle
  imports Complex_Main
begin

section \<open>The crossword client (static/js/script.js)\<close>

text \<open>
  The script exists in three revisions.  The development follows the latest one, which
  adds the Pause button and the confidence of an assignment to the earlier two; its
  functions \<open>createCellNumbering\<close>, \<open>renderGrid\<close>, \<open>runSolveStep\<close> and \<open>solveStep\<close> are
  textually the same as in the first revision.

  The client is a handful of global variables and DOM elements that the functions of the
  script read and overwrite.  They are collected in one record, and every function of the
  script becomes a function from the record to the updated record.
\<close>

subsection \<open>JSON payloads\<close>

text \<open>A cell of the grid snapshot: \<open>{is_black, char}\<close>; \<open>None\<close> is a missing or null \<open>char\<close>.\<close>

record cell =
  is_black :: bool
  char :: "string option"

text \<open>
  The fields that a clue and an entry of \<open>assigned_clues\<close> have in common.  The confidence is
  a JSON number that the client only copies and shows; \<open>None\<close> is \<open>undefined\<close> or \<open>null\<close>,
  which the script treats alike.
\<close>

record assignment =
  number :: int
  assigned :: "string option"
  confidence :: "rat option"

text \<open>A clue of \<open>across_clues\<close> or \<open>down_clues\<close>: \<open>{number, start: [row, col], length, text, assigned?}\<close>.\<close>

record clue = assignment +
  start :: "nat \<times> nat"
  clue_length :: nat
  clue_text :: string

datatype direction = A | D

text \<open>An entry of \<open>assigned_clues\<close>: \<open>{number, direction, assigned, confidence}\<close>.\<close>

record assignedClue = assignment +
  direction :: direction

record snapshot =
  grid :: "cell list list"

text \<open>The body of the reply of \<open>/api/initialize\<close>.\<close>

record initData = snapshot +
  across_clues :: "clue list"
  down_clues :: "clue list"

text \<open>
  The body of the reply of \<open>/api/solve_step\<close>.  \<open>assigned_clues\<close> and \<open>message\<close> may be
  missing; \<open>solved\<close> is \<open>null\<close> or missing (\<open>None\<close>) while the puzzle is in progress.
\<close>

record stepData = snapshot +
  assigned_clues :: "assignedClue list option"
  message :: "string option"
  progress :: bool
  solved :: "bool option"

text \<open>
  What \<open>await fetch(...)\<close> followed by \<open>await response.json()\<close> can give: a rejected promise
  with the message of its error, a response whose \<open>ok\<close> is false, or the parsed body.
\<close>

datatype 'a response = Rejected string | NotOk | Json 'a

subsection \<open>The DOM\<close>

text \<open>
  A cell of the rendered grid is a \<open>div\<close> with a class list and child nodes: the \<open>span\<close> of
  class \<open>number\<close> that holds the clue number, or a text node.
\<close>

datatype node = NumberSpan int | TextNode string

record cellElement =
  classList :: "string list"
  children :: "node list"

text \<open>
  An item of a clue list.  Its text is \<open>number. text (length)\<close>, followed by the arrow and
  the answer when the clue is assigned, and by the confidence when there is one.
\<close>

record listItem =
  item_id :: "string \<times> int"
  item_text :: "int \<times> string \<times> nat"
  item_answer :: "(string \<times> rat option) option"
  item_classList :: "string list"

subsection \<open>The state of the client\<close>

record client =
  gridData :: "cell list list option"
  acrossClues :: "clue list"
  downClues :: "clue list"
  cellNumbering :: "string \<rightharpoonup> int"
  pauseRequested :: bool
  solveStepBtn_disabled :: bool
  solveAllBtn_disabled :: bool
  pauseBtn_disabled :: bool
  crosswordGrid :: "cellElement list"
  gridTemplateColumns :: "nat option"
  acrossCluesList :: "listItem list"
  downCluesList :: "listItem list"
  solutionStatus_textContent :: string
  solutionStatus_className :: "string list"

text \<open>What the script throws: \<open>new Error(message)\<close>, or the engine's \<open>TypeError\<close>.\<close>

datatype error = Error string | TypeError string

fun error_message :: "error \<Rightarrow> string" where
  "error_message (Error m) = m"
| "error_message (TypeError m) = m"

subsection \<open>Truthiness\<close>

text \<open>
  JavaScript conditions on a number, a string or a boolean that may be missing:
  \<open>undefined\<close>, \<open>null\<close>, \<open>0\<close>, the empty string and \<open>false\<close> are falsy.
\<close>

fun truthy_number :: "int option \<Rightarrow> bool" where
  "truthy_number None = False"
| "truthy_number (Some n) = (n \<noteq> 0)"

fun truthy_string :: "string option \<Rightarrow> bool" where
  "truthy_string None = False"
| "truthy_string (Some s) = (s \<noteq> [])"

fun truthy_bool :: "bool option \<Rightarrow> bool" where
  "truthy_bool None = False"
| "truthy_bool (Some b) = b"

subsection \<open>Keys of the numbering map\<close>

text \<open>
  The decimal digits of a number, as the template literal \<open>`${row}-${col}`\<close> prints them.
  Rows and columns are positions in the grid, natural numbers far below the size from which
  JavaScript prints a number with an exponent.
\<close>

definition digit :: "nat \<Rightarrow> char" where
  "digit n = ''0123456789'' ! n"

fun toString :: "nat \<Rightarrow> string" where
  "toString n = (if n < 10 then [digit n] else toString (n div 10) @ [digit (n mod 10)])"

declare toString.simps [simp del]

definition cellKey :: "nat \<Rightarrow> nat \<Rightarrow> string" where
  "cellKey row col = toString row @ ''-'' @ toString col"

subsection \<open>createCellNumbering\<close>

definition number_across :: "clue \<Rightarrow> (string \<rightharpoonup> int) \<Rightarrow> (string \<rightharpoonup> int)" where
  "number_across c m = (case start c of (row, col) \<Rightarrow> m(cellKey row col \<mapsto> number c))"

definition number_down :: "clue \<Rightarrow> (string \<rightharpoonup> int) \<Rightarrow> (string \<rightharpoonup> int)" where
  "number_down c m =
     (case start c of (row, col) \<Rightarrow>
        if \<not> truthy_number (m (cellKey row col)) then m(cellKey row col \<mapsto> number c) else m)"

definition createCellNumbering :: "client \<Rightarrow> client" where
  "createCellNumbering st =
     (let st1 = st\<lparr>cellNumbering := Map.empty\<rparr>;
          st2 = st1\<lparr>cellNumbering := fold number_across (acrossClues st1) (cellNumbering st1)\<rparr>
      in st2\<lparr>cellNumbering := fold number_down (downClues st2) (cellNumbering st2)\<rparr>)"

subsection \<open>renderGrid\<close>

text \<open>\<open>classList.add\<close> appends a class unless the element has it already.\<close>

definition classList_add :: "string \<Rightarrow> string list \<Rightarrow> string list" where
  "classList_add c cs = (if c \<in> set cs then cs else cs @ [c])"

text \<open>
  The body of the inner \<open>forEach\<close>: the element built for one cell.  Assigning to
  \<open>textContent\<close> replaces the children of the element by one text node.
\<close>

definition renderCell :: "(string \<rightharpoonup> int) \<Rightarrow> nat \<Rightarrow> nat \<Rightarrow> cell \<Rightarrow> cellElement" where
  "renderCell numbering rowIndex colIndex c =
     (let cellElement = \<lparr>classList = classList_add ''cell'' [], children = []\<rparr> in
      if is_black c then cellElement\<lparr>classList := classList_add ''black'' (classList cellElement)\<rparr>
      else
        let numbered =
              (case numbering (cellKey rowIndex colIndex) of
                 None \<Rightarrow> cellElement
               | Some n \<Rightarrow>
                   if truthy_number (Some n)
                   then cellElement\<lparr>children := children cellElement @ [NumberSpan n]\<rparr>
                   else cellElement)
        in case char c of
             None \<Rightarrow> numbered
           | Some s \<Rightarrow>
               if truthy_string (Some s) \<and> s \<noteq> ''*''
               then numbered\<lparr>children := [TextNode s],
                              classList := classList_add ''filled'' (classList numbered)\<rparr>
               else numbered)"

text \<open>The two nested \<open>forEach\<close>: the elements appended to the grid, row by row.\<close>

definition renderCells :: "(string \<rightharpoonup> int) \<Rightarrow> cell list list \<Rightarrow> cellElement list" where
  "renderCells numbering g =
     concat (map (\<lambda>(rowIndex, row).
                    map (\<lambda>(colIndex, c). renderCell numbering rowIndex colIndex c)
                        (enumerate 0 row))
                 (enumerate 0 g))"

text \<open>
  \<open>gridData.forEach\<close> throws a \<open>TypeError\<close> while \<open>gridData\<close> is still \<open>null\<close>; the grid
  element has been emptied by then.
\<close>

definition renderGrid :: "client \<Rightarrow> (error \<times> client) + client" where
  "renderGrid st =
     (let st1 = st\<lparr>crosswordGrid := []\<rparr>;
          st2 = (case gridData st1 of
                   Some (row # rows) \<Rightarrow> st1\<lparr>gridTemplateColumns := Some (length row)\<rparr>
                 | _ \<Rightarrow> st1)
      in case gridData st2 of
           None \<Rightarrow> Inl (TypeError ''gridData is null'', st2)
         | Some g \<Rightarrow> Inr (st2\<lparr>crosswordGrid := renderCells (cellNumbering st2) g\<rparr>))"

subsection \<open>renderClues\<close>

definition renderClue :: "string \<Rightarrow> clue \<Rightarrow> listItem" where
  "renderClue list_name c =
     (let listItem = \<lparr>item_id = (list_name, number c),
                      item_text = (number c, clue_text c, clue_length c),
                      item_answer = None, item_classList = []\<rparr>
      in case assigned c of
           None \<Rightarrow> listItem
         | Some a \<Rightarrow>
             if truthy_string (Some a)
             then listItem\<lparr>item_classList := classList_add ''solved'' (item_classList listItem),
                            item_answer := Some (a, confidence c)\<rparr>
             else listItem)"

definition renderClues :: "client \<Rightarrow> client" where
  "renderClues st =
     st\<lparr>acrossCluesList := map (renderClue ''across'') (acrossClues st),
        downCluesList := map (renderClue ''down'') (downClues st)\<rparr>"

subsection \<open>updateCluesWithAssignments\<close>

text \<open>
  \<open>clues.find(c => c.number === assigned.number)\<close> gives the first clue of the list with the
  number of the entry, and the two assignments that follow overwrite that object where it
  stands in the list.  A list without such a clue is left as it is.
\<close>

primrec assign_found :: "assignedClue \<Rightarrow> clue list \<Rightarrow> clue list" where
  "assign_found a [] = []"
| "assign_found a (c # cs) =
     (if number c = number a
      then c\<lparr>assigned := assigned a, confidence := confidence a\<rparr> # cs
      else c # assign_found a cs)"

definition apply_assigned :: "assignedClue \<Rightarrow> client \<Rightarrow> client" where
  "apply_assigned a st =
     (if direction a = A
      then st\<lparr>acrossClues := assign_found a (acrossClues st)\<rparr>
      else st\<lparr>downClues := assign_found a (downClues st)\<rparr>)"

definition updateCluesWithAssignments :: "assignedClue list option \<Rightarrow> client \<Rightarrow> client" where
  "updateCluesWithAssignments assignedClues st =
     (case assignedClues of None \<Rightarrow> st | Some entries \<Rightarrow> fold apply_assigned entries st)"

subsection \<open>initializePuzzle\<close>

text \<open>\<open>delete clue.assigned; delete clue.confidence\<close>\<close>

definition delete_assignment :: "clue \<Rightarrow> clue" where
  "delete_assignment c = c\<lparr>assigned := None, confidence := None\<rparr>"

definition initialized_message :: string where
  \<open>initialized_message =
     ''Puzzle initialized. Click "Solve Step" to start solving or "Solve All" to solve the entire puzzle.''\<close>

definition catch_error :: "error \<Rightarrow> client \<Rightarrow> client" where
  "catch_error e st = st\<lparr>solutionStatus_textContent := ''Error: '' @ error_message e\<rparr>"

definition initializePuzzle :: "initData response \<Rightarrow> client \<Rightarrow> client" where
  "initializePuzzle response st =
     (let st1 = st\<lparr>solutionStatus_textContent := ''Initializing puzzle...'',
                   solutionStatus_className := []\<rparr>;
          st2 = st1\<lparr>acrossClues := [], downClues := []\<rparr>
      in case response of
           Rejected m \<Rightarrow> catch_error (TypeError m) st2
         | NotOk \<Rightarrow> catch_error (Error ''Failed to initialize puzzle'') st2
         | Json data \<Rightarrow>
             let st3 = st2\<lparr>gridData := Some (grid data),
                           acrossClues := across_clues data,
                           downClues := down_clues data\<rparr>;
                 st4 = st3\<lparr>acrossClues := map delete_assignment (acrossClues st3),
                           downClues := map delete_assignment (downClues st3)\<rparr>;
                 st5 = createCellNumbering st4
             in (case renderGrid st5 of
                   Inl (e, st6) \<Rightarrow> catch_error e st6
                 | Inr st6 \<Rightarrow>
                     (renderClues st6)
                       \<lparr>solveStepBtn_disabled := False,
                        solveAllBtn_disabled := False,
                        pauseBtn_disabled := True,
                        solutionStatus_textContent := initialized_message\<rparr>))"

subsection \<open>runSolveStep and solveStep\<close>

definition runSolveStep :: "stepData response \<Rightarrow> client \<Rightarrow> (error \<times> client) + (bool option \<times> client)" where
  "runSolveStep response st =
     (case response of
        Rejected m \<Rightarrow> Inl (TypeError m, st)
      | NotOk \<Rightarrow> Inl (Error ''Failed to solve step'', st)
      | Json data \<Rightarrow>
          let st1 = st\<lparr>gridData := Some (grid data)\<rparr>;
              st2 = updateCluesWithAssignments (assigned_clues data) st1
          in (case renderGrid st2 of
               Inl (e, st3) \<Rightarrow> Inl (e, st3)
             | Inr st3 \<Rightarrow>
                 let st4 = renderClues st3;
                     st5 = (case message data of
                              None \<Rightarrow> st4
                            | Some m \<Rightarrow>
                                if truthy_string (Some m)
                                then st4\<lparr>solutionStatus_textContent := m\<rparr> else st4);
                     st6 = (if solved data = Some True
                            then st5\<lparr>solutionStatus_className :=
                                        classList_add ''correct'' (solutionStatus_className st5),
                                      solveStepBtn_disabled := True,
                                      solveAllBtn_disabled := True\<rparr>
                            else if progress data = False
                            then st5\<lparr>solutionStatus_className :=
                                        classList_add ''incorrect'' (solutionStatus_className st5)\<rparr>
                            else st5)
                 in Inr (solved data, st6)))"

definition solveStep :: "stepData response \<Rightarrow> client \<Rightarrow> bool option \<times> client" where
  "solveStep response st =
     (let st1 = st\<lparr>solutionStatus_textContent := ''Solving step...'',
                   solutionStatus_className := []\<rparr>
      in case runSolveStep response st1 of
           Inr (result, st2) \<Rightarrow> (result, st2)
         | Inl (e, st2) \<Rightarrow> (Some False, catch_error e st2))"

subsection \<open>pauseSolving and solveAll\<close>

definition pauseSolving :: "client \<Rightarrow> client" where
  "pauseSolving st = st\<lparr>pauseRequested := True\<rparr>"

text \<open>
  One iteration of the loop of \<open>solveAll\<close> waits for the delay and for the reply of
  \<open>/api/solve_step\<close>.  The Pause button is enabled meanwhile, so what the outside world
  contributes to an iteration is the reply and whether Pause was clicked while the
  iteration was waiting.  \<open>pauseSolving\<close> only sets a flag that \<open>solveStep\<close> neither reads nor
  writes, so it does not matter during which of the two waits the click comes.

  The loop has no bound of its own.  It is run on fuel: \<open>None\<close> is a loop still running when
  the fuel is used up.  It returns the number of requests it has sent with the state.
\<close>

type_synonym iteration = "stepData response \<times> bool"

fun solveAll_loop :: "nat \<Rightarrow> (nat \<Rightarrow> iteration) \<Rightarrow> nat \<Rightarrow> bool option \<Rightarrow> client \<Rightarrow> (nat \<times> client) option" where
  "solveAll_loop 0 env i result st =
     (if \<not> truthy_bool result \<and> \<not> pauseRequested st then None else Some (i, st))"
| "solveAll_loop (Suc fuel) env i result st =
     (if \<not> truthy_bool result \<and> \<not> pauseRequested st
      then (case env i of (response, pause) \<Rightarrow>
              (case solveStep response (if pause then pauseSolving st else st) of
                 (result', st') \<Rightarrow> solveAll_loop fuel env (Suc i) result' st'))
      else Some (i, st))"

text \<open>
  \<open>solveStep\<close> catches whatever \<open>runSolveStep\<close> throws and the delay cannot fail, so the
  \<open>catch\<close> block of \<open>solveAll\<close> is never entered.
\<close>

definition solveAll :: "nat \<Rightarrow> (nat \<Rightarrow> iteration) \<Rightarrow> client \<Rightarrow> (nat \<times> client) option" where
  "solveAll fuel env st =
     (let st1 = st\<lparr>solutionStatus_textContent := ''Solving puzzle step by step...'',
                   solutionStatus_className := [],
                   solveStepBtn_disabled := True,
                   solveAllBtn_disabled := True,
                   pauseBtn_disabled := False\<rparr>;
          st2 = st1\<lparr>pauseRequested := False\<rparr>
      in case solveAll_loop fuel env 0 (Some False) st2 of
           None \<Rightarrow> None
         | Some (n, st3) \<Rightarrow>
             let st4 = st3\<lparr>pauseBtn_disabled := True\<rparr>
             in Some (n, if pauseRequested st4
                         then st4\<lparr>solutionStatus_textContent := ''Paused.'',
                                  solveStepBtn_disabled := False,
                                  solveAllBtn_disabled := False\<rparr>
                         else st4\<lparr>solveAllBtn_disabled := True\<rparr>))"

section \<open>Vocabulary of the results\<close>

subsection \<open>What one reply changes\<close>

text \<open>
  The clue lists after \<open>updateCluesWithAssignments\<close>: the entries of direction \<open>A\<close> go
  through the across list in their order, all others through the down list.
\<close>

definition updated_across :: "assignedClue list option \<Rightarrow> clue list \<Rightarrow> clue list" where
  "updated_across es cs =
     (case es of None \<Rightarrow> cs
      | Some l \<Rightarrow> fold assign_found (filter (\<lambda>e. direction e = A) l) cs)"

definition updated_down :: "assignedClue list option \<Rightarrow> clue list \<Rightarrow> clue list" where
  "updated_down es cs =
     (case es of None \<Rightarrow> cs
      | Some l \<Rightarrow> fold assign_found (filter (\<lambda>e. direction e \<noteq> A) l) cs)"

text \<open>The column count that \<open>renderGrid\<close> leaves in the style of the grid element.\<close>

definition columns :: "cell list list \<Rightarrow> nat option \<Rightarrow> nat option" where
  "columns g old = (case g of [] \<Rightarrow> old | row # rows \<Rightarrow> Some (length row))"

text \<open>The status line after a step that got a reply: its text and its classes.\<close>

definition status_text :: "string option \<Rightarrow> string" where
  "status_text m =
     (case m of None \<Rightarrow> ''Solving step...''
      | Some t \<Rightarrow> if t \<noteq> [] then t else ''Solving step...'')"

definition status_class :: "stepData \<Rightarrow> string list" where
  "status_class d =
     (if solved d = Some True then [''correct'']
      else if \<not> progress d then [''incorrect''] else [])"

text \<open>The two assignments that \<open>updateCluesWithAssignments\<close> makes to a clue it has found.\<close>

definition set_assignment :: "assignedClue \<Rightarrow> clue \<Rightarrow> clue" where
  "set_assignment e c = c\<lparr>assigned := assigned e, confidence := confidence e\<rparr>"

text \<open>
  The entry of a list of assignments that decides a clue of the given direction: the last
  one with the direction and the number of the clue.
\<close>

definition matched :: "direction \<Rightarrow> assignedClue list \<Rightarrow> clue \<Rightarrow> assignedClue option" where
  "matched dir es c = find (\<lambda>e. direction e = dir \<and> number e = number c) (rev es)"

subsection \<open>The course of the loop\<close>

text \<open>A reply whose \<open>solved\<close> is \<open>true\<close>: the only value of \<open>solveStep\<close> that is truthy.\<close>

definition solved_true :: "stepData response \<Rightarrow> bool" where
  "solved_true r = (case r of Json d \<Rightarrow> solved d = Some True | _ \<Rightarrow> False)"

text \<open>An iteration after which the condition of the loop is false.\<close>

definition stops :: "iteration \<Rightarrow> bool" where
  "stops it = (snd it \<or> solved_true (fst it))"

text \<open>The state of the client when the first \<open>n\<close> iterations have been through.\<close>

primrec after :: "(nat \<Rightarrow> iteration) \<Rightarrow> nat \<Rightarrow> client \<Rightarrow> client" where
  "after env 0 st = st"
| "after env (Suc n) st =
     snd (solveStep (fst (env n))
            (if snd (env n) then pauseSolving (after env n st) else after env n st))"

text \<open>What \<open>solveAll\<close> does before the loop and after it.\<close>

definition prologue :: "client \<Rightarrow> client" where
  "prologue st =
     st\<lparr>solutionStatus_textContent := ''Solving puzzle step by step...'',
        solutionStatus_className := [],
        solveStepBtn_disabled := True,
        solveAllBtn_disabled := True,
        pauseBtn_disabled := False,
        pauseRequested := False\<rparr>"

definition epilogue :: "client \<Rightarrow> client" where
  "epilogue st =
     (if pauseRequested st
      then st\<lparr>pauseBtn_disabled := True, solutionStatus_textContent := ''Paused.'',
              solveStepBtn_disabled := False, solveAllBtn_disabled := False\<rparr>
      else st\<lparr>pauseBtn_disabled := True, solveAllBtn_disabled := True\<rparr>)"

text \<open>Two states of the client that hold the same puzzle.\<close>

definition same_puzzle :: "client \<Rightarrow> client \<Rightarrow> bool" where
  "same_puzzle a b =
     (gridData a = gridData b \<and> acrossClues a = acrossClues b \<and> downClues a = downClues b \<and>
      cellNumbering a = cellNumbering b)"

subsection \<open>What a rendered cell shows\<close>

fun is_text :: "node \<Rightarrow> bool" where
  "is_text (TextNode s) = True"
| "is_text (NumberSpan n) = False"

definition shows_letter :: "cellElement \<Rightarrow> bool" where
  "shows_letter el = list_ex is_text (children el)"

text \<open>The condition \<open>cell.char && cell.char !== '*'\<close> of \<open>renderGrid\<close>.\<close>

definition holds_letter :: "cell \<Rightarrow> bool" where
  "holds_letter c = (case char c of None \<Rightarrow> False | Some s \<Rightarrow> s \<noteq> [] \<and> s \<noteq> ''*'')"

subsection \<open>A small puzzle\<close>

text \<open>
  Two rows of two white cells: \<open>AT\<close> over \<open>NO\<close>.  Clue 1 runs across and down from the top
  left cell, clue 2 down from the top right one, clue 3 across the second row.  The reply
  of \<open>/api/initialize\<close> still carries an answer for 1 across.
\<close>

definition white :: "string \<Rightarrow> cell" where
  "white s = \<lparr>is_black = False, char = Some s\<rparr>"

definition example_across :: "clue list" where
  "example_across =
     [\<lparr>number = 1, assigned = Some ''AT'', confidence = Some (9 / 10),
       start = (0, 0), clue_length = 2, clue_text = ''Near''\<rparr>,
      \<lparr>number = 3, assigned = None, confidence = None,
       start = (1, 0), clue_length = 2, clue_text = ''Refusal''\<rparr>]"

definition example_down :: "clue list" where
  "example_down =
     [\<lparr>number = 1, assigned = None, confidence = None,
       start = (0, 0), clue_length = 2, clue_text = ''Article''\<rparr>,
      \<lparr>number = 2, assigned = None, confidence = None,
       start = (0, 1), clue_length = 2, clue_text = ''Toward''\<rparr>]"

definition example_init :: initData where
  "example_init =
     \<lparr>grid = [[white ''*'', white ''*''], [white ''*'', white ''*'']],
      across_clues = example_across, down_clues = example_down\<rparr>"

text \<open>The page before any button is clicked, and a page that an older puzzle has left.\<close>

definition example_page :: client where
  "example_page =
     \<lparr>gridData = None, acrossClues = [], downClues = [], cellNumbering = Map.empty,
      pauseRequested = False, solveStepBtn_disabled = True, solveAllBtn_disabled = True,
      pauseBtn_disabled = True, crosswordGrid = [], gridTemplateColumns = None,
      acrossCluesList = [], downCluesList = [],
      solutionStatus_textContent = [], solutionStatus_className = []\<rparr>"

definition example_previous :: client where
  "example_previous =
     example_page
       \<lparr>gridData := Some [[white ''Z'', white ''Z'']],
        acrossClues := [\<lparr>number = 7, assigned = Some ''ZZ'', confidence = Some (1 / 2),
                         start = (5, 5), clue_length = 2, clue_text = ''Sleep''\<rparr>],
        cellNumbering := [cellKey 5 5 \<mapsto> 7],
        pauseRequested := True,
        solutionStatus_className := [''correct'']\<rparr>"

definition example_client :: client where
  "example_client = initializePuzzle (Json example_init) example_page"

text \<open>Replies of \<open>/api/solve_step\<close>: an assignment, a backtracking step, the two ends.\<close>

definition example_assign :: stepData where
  "example_assign =
     \<lparr>grid = [[white ''A'', white ''T''], [white ''*'', white ''*'']],
      assigned_clues =
        Some [\<lparr>number = 1, assigned = Some ''AT'', confidence = Some (9 / 10), direction = A\<rparr>],
      message = Some ''Assigned AT'', progress = True, solved = None\<rparr>"

definition example_backtrack :: stepData where
  "example_backtrack =
     \<lparr>grid = [[white ''*'', white ''*''], [white ''*'', white ''*'']],
      assigned_clues =
        Some [\<lparr>number = 1, assigned = None, confidence = None, direction = A\<rparr>],
      message = Some ''Backtracking'', progress = False, solved = None\<rparr>"

definition example_entries :: "assignedClue list" where
  "example_entries =
     [\<lparr>number = 3, assigned = Some ''NO'', confidence = Some (4 / 5), direction = A\<rparr>,
      \<lparr>number = 1, assigned = Some ''AN'', confidence = Some (7 / 10), direction = D\<rparr>,
      \<lparr>number = 9, assigned = Some ''XX'', confidence = Some (1 / 10), direction = D\<rparr>,
      \<lparr>number = 2, assigned = Some ''TO'', confidence = Some (3 / 5), direction = D\<rparr>]"

definition example_solved :: stepData where
  "example_solved =
     \<lparr>grid = [[white ''A'', white ''T''], [white ''N'', white ''O'']],
      assigned_clues = Some example_entries,
      message = Some ''Solved'', progress = True, solved = Some True\<rparr>"

definition example_exhausted :: stepData where
  "example_exhausted =
     \<lparr>grid = [[white ''*'', white ''*''], [white ''*'', white ''*'']],
      assigned_clues = Some [], message = Some ''No solution found'', progress = False,
      solved = Some False\<rparr>"

text \<open>
  The client after the first assignment has been applied, and an entry for 1 across that
  carries an answer but no confidence.
\<close>

definition example_assigned :: client where
  "example_assigned = snd (solveStep (Json example_assign) example_client)"

definition example_unrated :: assignedClue where
  "example_unrated = \<lparr>number = 1, assigned = Some ''AS'', confidence = None, direction = A\<rparr>"

text \<open>
  Three courses of \<open>solveAll\<close>: one that backtracks once and is solved by the fourth reply,
  one in which Pause is clicked during the second iteration, and one in which every reply
  is the exhausted result.
\<close>

definition example_run :: "nat \<Rightarrow> iteration" where
  "example_run i =
     (if i = 0 then (Json example_assign, False)
      else if i = 1 then (Json example_backtrack, False)
      else if i = 2 then (Json example_assign, False)
      else (Json example_solved, False))"

definition example_paused_run :: "nat \<Rightarrow> iteration" where
  "example_paused_run i =
     (if i = 0 then (Json example_assign, False)
      else if i = 1 then (Json example_backtrack, True)
      else (Json example_solved, False))"

definition example_exhausted_run :: "nat \<Rightarrow> iteration" where
  "example_exhausted_run i = (Json example_exhausted, False)"

text \<open>A grid with a letter, a placeholder, a black cell and a cell without \<open>char\<close>.\<close>

definition example_grid :: "cell list list" where
  "example_grid =
     [[white ''A'', white ''*''],
      [\<lparr>is_black = True, char = Some ''B''\<rparr>, \<lparr>is_black = False, char = None\<rparr>]]"

section \<open>Lemmas\<close>

subsection \<open>Keys are injective\<close>

text \<open>
  The numbering map is keyed by strings.  Two cells have the same key only if they are the
  same cell: a number prints without a dash, so a key splits at its dash in one way only,
  and a number is determined by its digits.
\<close>

lemma digit_inj: "m < 10 \<Longrightarrow> n < 10 \<Longrightarrow> digit m = digit n \<longleftrightarrow> m = n"
  unfolding digit_def by (subst nth_eq_iff_index_eq) simp_all

lemma digit_not_dash: "n < 10 \<Longrightarrow> digit n \<noteq> CHR ''-''"
proof -
  assume "n < 10"
  then have "digit n \<in> set ''0123456789''"
    unfolding digit_def by (intro nth_mem) simp
  then show ?thesis by auto
qed

lemma dash_notin_toString: "CHR ''-'' \<notin> set (toString n)"
proof (induction n rule: toString.induct)
  case (1 n)
  show ?case
  proof (cases "n < 10")
    case True
    then show ?thesis using digit_not_dash [of n] by (simp add: toString.simps)
  next
    case False
    then show ?thesis
      using 1 digit_not_dash [of "n mod 10"] by (subst toString.simps) simp
  qed
qed

lemma toString_nonempty: "toString n \<noteq> []"
  by (subst toString.simps) simp

lemma toString_inj: "toString m = toString n \<Longrightarrow> m = n"
proof (induction m arbitrary: n rule: toString.induct)
  case (1 m)
  show ?case
  proof (cases "m < 10")
    case True
    show ?thesis
    proof (cases "n < 10")
      case True
      with \<open>m < 10\<close> 1(2) show ?thesis by (simp add: toString.simps digit_inj)
    next
      case False
      with \<open>m < 10\<close> 1(2) toString_nonempty [of "n div 10"] show ?thesis
        by (simp add: toString.simps [of m] toString.simps [of n])
    qed
  next
    case False
    show ?thesis
    proof (cases "n < 10")
      case True
      with False 1(2) toString_nonempty [of "m div 10"] show ?thesis
        by (simp add: toString.simps [of m] toString.simps [of n])
    next
      case n: False
      from False n 1(2) have eq: "toString (m div 10) = toString (n div 10)" "digit (m mod 10) = digit (n mod 10)"
        by (simp_all add: toString.simps [of m] toString.simps [of n])
      from eq(1) have "m div 10 = n div 10" using 1(1) False by simp
      moreover from eq(2) have "m mod 10 = n mod 10" by (simp add: digit_inj)
      ultimately show ?thesis by (metis div_mult_mod_eq)
    qed
  qed
qed

lemma split_at_dash:
  assumes "xs @ CHR ''-'' # ys = xs' @ CHR ''-'' # ys'" "CHR ''-'' \<notin> set xs" "CHR ''-'' \<notin> set xs'"
  shows "xs = xs' \<and> ys = ys'"
  using assms
proof (induction xs arbitrary: xs')
  case Nil
  then show ?case by (cases xs') auto
next
  case (Cons x xs)
  then show ?case by (cases xs') auto
qed

lemma cellKey_inj [simp]: "cellKey r c = cellKey r' c' \<longleftrightarrow> r = r' \<and> c = c'"
proof
  assume "cellKey r c = cellKey r' c'"
  then have "toString r = toString r' \<and> toString c = toString c'"
    unfolding cellKey_def using split_at_dash [of "toString r" "toString c" "toString r'" "toString c'"]
    by (simp add: dash_notin_toString)
  then show "r = r' \<and> c = c'" by (auto dest: toString_inj)
qed simp

subsection \<open>The two passes of the numbering\<close>

text \<open>
  The across pass leaves at the key of a cell the number of the last across clue that
  starts there.  The down pass writes only where the entry is missing or falsy.
\<close>

lemma across_pass_miss:
  "\<forall>c \<in> set cs. start c \<noteq> (row, col) \<Longrightarrow> fold number_across cs m (cellKey row col) = m (cellKey row col)"
  by (induction cs arbitrary: m) (auto simp: number_across_def split: prod.splits)

lemma across_pass_hit:
  "\<exists>c \<in> set cs. start c = (row, col) \<Longrightarrow>
   \<exists>c \<in> set cs. start c = (row, col) \<and> fold number_across cs m (cellKey row col) = Some (number c)"
proof (induction cs arbitrary: m)
  case Nil
  then show ?case by simp
next
  case (Cons c cs)
  show ?case
  proof (cases "\<exists>c' \<in> set cs. start c' = (row, col)")
    case True
    from Cons.IH [OF True] show ?thesis by auto
  next
    case False
    with Cons.prems have c: "start c = (row, col)" by auto
    from False have "fold number_across cs (number_across c m) (cellKey row col) = number_across c m (cellKey row col)"
      by (intro across_pass_miss) auto
    moreover from c have "number_across c m (cellKey row col) = Some (number c)"
      by (simp add: number_across_def)
    ultimately show ?thesis using c by simp
  qed
qed

lemma down_pass_miss:
  "\<forall>c \<in> set cs. start c \<noteq> (row, col) \<Longrightarrow> fold number_down cs m (cellKey row col) = m (cellKey row col)"
  by (induction cs arbitrary: m) (auto simp: number_down_def split: prod.splits)

lemma number_down_keep: "truthy_number (m k) \<Longrightarrow> number_down c m k = m k"
  by (cases "start c") (auto simp: number_down_def)

lemma down_pass_keep:
  "truthy_number (m k) \<Longrightarrow> fold number_down cs m k = m k"
proof (induction cs arbitrary: m)
  case Nil
  show ?case by simp
next
  case (Cons c cs)
  from Cons.prems have "number_down c m k = m k" by (rule number_down_keep)
  with Cons.IH [of "number_down c m"] Cons.prems show ?case by simp
qed

lemma down_pass_hit:
  "\<exists>c \<in> set cs. start c = (row, col) \<Longrightarrow> \<forall>c \<in> set cs. number c \<noteq> 0 \<Longrightarrow>
   \<not> truthy_number (m (cellKey row col)) \<Longrightarrow>
   \<exists>c \<in> set cs. start c = (row, col) \<and> fold number_down cs m (cellKey row col) = Some (number c)"
proof (induction cs arbitrary: m)
  case Nil
  then show ?case by simp
next
  case (Cons c cs)
  show ?case
  proof (cases "start c = (row, col)")
    case True
    then have "number_down c m (cellKey row col) = Some (number c)"
      using Cons.prems(3) by (simp add: number_down_def)
    moreover from this Cons.prems(2)
    have "fold number_down cs (number_down c m) (cellKey row col) = number_down c m (cellKey row col)"
      using down_pass_keep [of "number_down c m" "cellKey row col" cs] by simp
    ultimately show ?thesis using True by auto
  next
    case False
    then have same: "number_down c m (cellKey row col) = m (cellKey row col)"
      by (auto simp: number_down_def split: prod.splits)
    from False Cons.prems(1) have "\<exists>c \<in> set cs. start c = (row, col)" by auto
    from Cons.IH [OF this, of "number_down c m"] Cons.prems(2,3) same
    show ?thesis by auto
  qed
qed

lemma cellNumbering_createCellNumbering:
  "cellNumbering (createCellNumbering st) =
     fold number_down (downClues st) (fold number_across (acrossClues st) Map.empty)"
  by (simp add: createCellNumbering_def Let_def)


text \<open>
  For clue lists whose numbers are not zero, the numbering map has a truthy entry at the key
  of a cell exactly when a clue of one of the two lists starts there.  Where an across clue
  starts, the entry is the number of that across clue, whatever down clue starts there too:
  the down pass does not overwrite it.
\<close>

lemma createCellNumbering_numbers_clue_starts:
  assumes "\<forall>c \<in> set (acrossClues st) \<union> set (downClues st). number c \<noteq> 0"
  shows "(truthy_number (cellNumbering (createCellNumbering st) (cellKey row col))
          \<longleftrightarrow> (\<exists>c \<in> set (acrossClues st) \<union> set (downClues st). start c = (row, col)))
       \<and> (\<forall>a \<in> set (acrossClues st). \<forall>d \<in> set (downClues st).
            start a = (row, col) \<and> start d = (row, col) \<and>
            (\<forall>a' \<in> set (acrossClues st). start a' = (row, col) \<longrightarrow> number a' = number a)
            \<longrightarrow> cellNumbering (createCellNumbering st) (cellKey row col) = Some (number a))"
proof -
  let ?k = "cellKey row col"
  let ?m1 = "fold number_across (acrossClues st) Map.empty"
  let ?m2 = "fold number_down (downClues st) ?m1"
  have across: "?m2 ?k = ?m1 ?k \<and> (\<exists>c \<in> set (acrossClues st). start c = (row, col) \<and> ?m1 ?k = Some (number c))"
    if "\<exists>c \<in> set (acrossClues st). start c = (row, col)"
  proof -
    from across_pass_hit [OF that, of Map.empty]
    obtain c where c: "c \<in> set (acrossClues st)" "start c = (row, col)" "?m1 ?k = Some (number c)" by auto
    with assms have "truthy_number (?m1 ?k)" by simp
    from down_pass_keep [of ?m1 ?k "downClues st"] this c show ?thesis by auto
  qed
  have no_across: "?m1 ?k = None" if "\<not> (\<exists>c \<in> set (acrossClues st). start c = (row, col))"
    using that across_pass_miss [of "acrossClues st" row col Map.empty] by auto
  have iff: "truthy_number (?m2 ?k) \<longleftrightarrow> (\<exists>c \<in> set (acrossClues st) \<union> set (downClues st). start c = (row, col))"
  proof (cases "\<exists>c \<in> set (acrossClues st). start c = (row, col)")
    case True
    from across [OF True] assms show ?thesis by auto
  next
    case False
    note m1 = no_across [OF False]
    show ?thesis
    proof (cases "\<exists>c \<in> set (downClues st). start c = (row, col)")
      case True
      from down_pass_hit [OF True, of ?m1] assms m1
      obtain d where "d \<in> set (downClues st)" "start d = (row, col)" "?m2 ?k = Some (number d)" by auto
      with assms show ?thesis by auto
    next
      case d: False
      then have "?m2 ?k = ?m1 ?k" using down_pass_miss [of "downClues st" row col ?m1] by auto
      with m1 False d show ?thesis by auto
    qed
  qed
  have shared: "?m2 ?k = Some (number a)"
    if "a \<in> set (acrossClues st)" "start a = (row, col)"
       "\<forall>a' \<in> set (acrossClues st). start a' = (row, col) \<longrightarrow> number a' = number a" for a
  proof -
    from that have "\<exists>c \<in> set (acrossClues st). start c = (row, col)" by auto
    from across [OF this] that(3) show ?thesis by auto
  qed
  from iff shared show ?thesis
    unfolding cellNumbering_createCellNumbering by blast
qed

subsection \<open>Rendering\<close>

text \<open>
  With a grid in \<open>gridData\<close>, \<open>renderGrid\<close> does not throw.  The children of the element
  of a cell: none for a black cell; the letter alone for a white cell that holds one, since
  the assignment to \<open>textContent\<close> removes the number appended before; else the number, if
  the numbering map has a truthy entry for the cell.
\<close>

lemma renderGrid_Some:
  "gridData st = Some g \<Longrightarrow>
   renderGrid st = Inr (st\<lparr>crosswordGrid := renderCells (cellNumbering st) g,
                           gridTemplateColumns := columns g (gridTemplateColumns st)\<rparr>)"
  by (cases g) (simp_all add: renderGrid_def Let_def columns_def)

lemma children_renderCell:
  "children (renderCell numbering i j c) =
     (if is_black c then []
      else if holds_letter c then [TextNode (the (char c))]
      else if truthy_number (numbering (cellKey i j)) then [NumberSpan (the (numbering (cellKey i j)))]
      else [])"
  by (simp add: renderCell_def holds_letter_def Let_def split: option.splits)

lemma classList_renderCell:
  "classList (renderCell numbering i j c) =
     (if is_black c then [''cell'', ''black'']
      else if holds_letter c then [''cell'', ''filled'']
      else [''cell''])"
  by (simp add: renderCell_def holds_letter_def Let_def classList_add_def split: option.splits)

lemma list_all2_row:
  "(\<And>j c. P c (f j c)) \<Longrightarrow> list_all2 P row (map (\<lambda>(j, c). f j c) (enumerate k row))"
  by (induction row arbitrary: k) simp_all

lemma list_all2_rows:
  "(\<And>i j c. P c (f i j c)) \<Longrightarrow>
   list_all2 P (concat g) (concat (map (\<lambda>(i, row). map (\<lambda>(j, c). f i j c) (enumerate 0 row)) (enumerate k g)))"
proof (induction g arbitrary: k)
  case Nil
  show ?case by simp
next
  case (Cons row g)
  have "list_all2 P row (map (\<lambda>(j, c). f k j c) (enumerate 0 row))"
    using Cons.prems by (intro list_all2_row)
  with Cons.IH [OF Cons.prems, of "Suc k"] show ?case
    by (simp add: list_all2_appendI)
qed

lemma list_all2_renderCells:
  "(\<And>i j c. P c (renderCell numbering i j c)) \<Longrightarrow> list_all2 P (concat g) (renderCells numbering g)"
  unfolding renderCells_def by (rule list_all2_rows)


subsection \<open>Assignments\<close>

text \<open>
  \<open>updateCluesWithAssignments\<close> touches the two clue lists only, each by the entries of
  its direction.  An entry leaves the numbers of the clues as they are; in a list of
  distinct numbers it rewrites every clue with its number, which is the one clue found.
\<close>

lemma fold_apply_assigned:
  "fold apply_assigned es st =
     st\<lparr>acrossClues := fold assign_found (filter (\<lambda>e. direction e = A) es) (acrossClues st),
        downClues := fold assign_found (filter (\<lambda>e. direction e \<noteq> A) es) (downClues st)\<rparr>"
  by (induction es arbitrary: st) (simp_all add: apply_assigned_def)

lemma updateCluesWithAssignments_eq:
  "updateCluesWithAssignments es st =
     st\<lparr>acrossClues := updated_across es (acrossClues st),
        downClues := updated_down es (downClues st)\<rparr>"
  by (cases es) (simp_all add: updateCluesWithAssignments_def fold_apply_assigned updated_across_def updated_down_def)

lemma number_assign_found [simp]: "map number (assign_found e cs) = map number cs"
  by (induction cs) simp_all

lemma assign_found_no_match:
  "find (\<lambda>c. number c = number e) cs = None \<Longrightarrow> assign_found e cs = cs"
  by (induction cs) (auto split: if_splits)

lemma assign_found_distinct:
  "distinct (map number cs) \<Longrightarrow>
   assign_found e cs = map (\<lambda>c. if number c = number e then set_assignment e c else c) cs"
proof (induction cs)
  case Nil
  show ?case by simp
next
  case (Cons c cs)
  show ?case
  proof (cases "number c = number e")
    case True
    with Cons.prems have "\<forall>c' \<in> set cs. number c' \<noteq> number e" by (auto simp: image_iff)
    then have "map (\<lambda>c. if number c = number e then set_assignment e c else c) cs = cs"
      by (induction cs) auto
    with True show ?thesis by (simp add: set_assignment_def)
  next
    case False
    with Cons show ?thesis by simp
  qed
qed

lemma fold_assign_found_distinct:
  "distinct (map number cs) \<Longrightarrow>
   fold assign_found (filter (\<lambda>e. direction e = dir) es) cs =
     map (\<lambda>c. case matched dir es c of None \<Rightarrow> c | Some e \<Rightarrow> set_assignment e c) cs"
proof (induction es rule: rev_induct)
  case Nil
  show ?case by (simp add: matched_def)
next
  case (snoc e es)
  let ?cs = "fold assign_found (filter (\<lambda>e. direction e = dir) es) cs"
  have numbers: "map number ?cs = map number cs"
    by (induction es arbitrary: cs) simp_all
  show ?case
  proof (cases "direction e = dir")
    case False
    with snoc show ?thesis by (simp add: matched_def)
  next
    case True
    from snoc.prems numbers have "distinct (map number ?cs)" by simp
    from assign_found_distinct [OF this, of e] True snoc
    show ?thesis
      by (auto simp: matched_def set_assignment_def split: option.splits)
  qed
qed

lemma direction_not_A: "(d \<noteq> A) = (d = D)"
  by (cases d) simp_all


lemma find_rev_append_unmatched:
  "\<not> P e \<Longrightarrow> find P (rev (es @ e # es')) = find P (rev (es @ es'))"
  by (induction es' rule: rev_induct) (simp_all)

lemma matched_unmatched_entry:
  assumes "direction e \<noteq> dir \<or> number e \<noteq> number c"
  shows "matched dir (es @ e # es') c = matched dir (es @ es') c"
  unfolding matched_def using assms by (intro find_rev_append_unmatched) auto

subsection \<open>One step\<close>

text \<open>
  The state after \<open>runSolveStep\<close>, \<open>solveStep\<close> and \<open>initializePuzzle\<close>, field by field.
  The grid is assigned from the reply before \<open>renderGrid\<close> is called, so the branch of the
  \<open>TypeError\<close> is not taken.  A click on Pause and the rest of a step commute.
\<close>

lemma runSolveStep_Json:
  "runSolveStep (Json d) st =
     Inr (solved d,
        st\<lparr>gridData := Some (grid d),
           acrossClues := updated_across (assigned_clues d) (acrossClues st),
           downClues := updated_down (assigned_clues d) (downClues st),
           crosswordGrid := renderCells (cellNumbering st) (grid d),
           gridTemplateColumns := columns (grid d) (gridTemplateColumns st),
           acrossCluesList := map (renderClue ''across'') (updated_across (assigned_clues d) (acrossClues st)),
           downCluesList := map (renderClue ''down'') (updated_down (assigned_clues d) (downClues st)),
           solutionStatus_textContent :=
             (case message d of None \<Rightarrow> solutionStatus_textContent st
              | Some t \<Rightarrow> if t \<noteq> [] then t else solutionStatus_textContent st),
           solutionStatus_className :=
             (if solved d = Some True then classList_add ''correct'' (solutionStatus_className st)
              else if \<not> progress d then classList_add ''incorrect'' (solutionStatus_className st)
              else solutionStatus_className st),
           solveStepBtn_disabled := (if solved d = Some True then True else solveStepBtn_disabled st),
           solveAllBtn_disabled := (if solved d = Some True then True else solveAllBtn_disabled st)\<rparr>)"
proof -
  let ?st2 = "updateCluesWithAssignments (assigned_clues d) (st\<lparr>gridData := Some (grid d)\<rparr>)"
  have "gridData ?st2 = Some (grid d)" by (simp add: updateCluesWithAssignments_eq)
  note r = renderGrid_Some [OF this]
  show ?thesis
    unfolding runSolveStep_def
    apply (simp only: response.case Let_def r sum.case)
    apply (simp add: updateCluesWithAssignments_eq renderClues_def split: option.splits)
    done
qed

lemma solveStep_Json:
  "solveStep (Json d) st =
     (solved d,
        st\<lparr>gridData := Some (grid d),
           acrossClues := updated_across (assigned_clues d) (acrossClues st),
           downClues := updated_down (assigned_clues d) (downClues st),
           crosswordGrid := renderCells (cellNumbering st) (grid d),
           gridTemplateColumns := columns (grid d) (gridTemplateColumns st),
           acrossCluesList := map (renderClue ''across'') (updated_across (assigned_clues d) (acrossClues st)),
           downCluesList := map (renderClue ''down'') (updated_down (assigned_clues d) (downClues st)),
           solutionStatus_textContent := status_text (message d),
           solutionStatus_className := status_class d,
           solveStepBtn_disabled := (if solved d = Some True then True else solveStepBtn_disabled st),
           solveAllBtn_disabled := (if solved d = Some True then True else solveAllBtn_disabled st)\<rparr>)"
  unfolding solveStep_def Let_def runSolveStep_Json
  by (simp add: status_text_def status_class_def classList_add_def split: option.splits)

lemma solveStep_Rejected:
  "solveStep (Rejected m) st =
     (Some False, st\<lparr>solutionStatus_textContent := ''Error: '' @ m, solutionStatus_className := []\<rparr>)"
  by (simp add: solveStep_def runSolveStep_def catch_error_def)

lemma solveStep_NotOk:
  "solveStep NotOk st =
     (Some False, st\<lparr>solutionStatus_textContent := ''Error: Failed to solve step'',
                      solutionStatus_className := []\<rparr>)"
  by (simp add: solveStep_def runSolveStep_def catch_error_def)

lemma truthy_bool_eq: "truthy_bool b \<longleftrightarrow> b = Some True"
  by (cases b) auto

lemma solveStep_result: "truthy_bool (fst (solveStep r st)) \<longleftrightarrow> solved_true r"
  by (cases r) (simp_all add: solveStep_Json solveStep_Rejected solveStep_NotOk solved_true_def truthy_bool_eq)

lemma solveStep_pauseRequested: "pauseRequested (snd (solveStep r st)) = pauseRequested st"
  by (cases r) (simp_all add: solveStep_Json solveStep_Rejected solveStep_NotOk)

lemma solveStep_pauseSolving:
  "solveStep r (pauseSolving st) = (fst (solveStep r st), pauseSolving (snd (solveStep r st)))"
  by (cases r) (simp_all add: solveStep_Json solveStep_Rejected solveStep_NotOk pauseSolving_def)

lemma initializePuzzle_Json:
  "initializePuzzle (Json d) st =
     st\<lparr>gridData := Some (grid d),
        acrossClues := map delete_assignment (across_clues d),
        downClues := map delete_assignment (down_clues d),
        cellNumbering := fold number_down (map delete_assignment (down_clues d))
                           (fold number_across (map delete_assignment (across_clues d)) Map.empty),
        crosswordGrid := renderCells
           (fold number_down (map delete_assignment (down_clues d))
              (fold number_across (map delete_assignment (across_clues d)) Map.empty)) (grid d),
        gridTemplateColumns := columns (grid d) (gridTemplateColumns st),
        acrossCluesList := map (renderClue ''across'') (map delete_assignment (across_clues d)),
        downCluesList := map (renderClue ''down'') (map delete_assignment (down_clues d)),
        solveStepBtn_disabled := False,
        solveAllBtn_disabled := False,
        pauseBtn_disabled := True,
        solutionStatus_textContent := initialized_message,
        solutionStatus_className := []\<rparr>"
proof -
  let ?st4 = "st\<lparr>solutionStatus_textContent := ''Initializing puzzle...'', solutionStatus_className := [],
                gridData := Some (grid d),
                acrossClues := map delete_assignment (across_clues d),
                downClues := map delete_assignment (down_clues d)\<rparr>"
  have "gridData (createCellNumbering ?st4) = Some (grid d)"
    by (simp add: createCellNumbering_def Let_def)
  note r = renderGrid_Some [OF this]
  show ?thesis
    unfolding initializePuzzle_def
    apply (simp add: Let_def r)
    apply (simp add: createCellNumbering_def Let_def renderClues_def)
    done
qed

text \<open>The small puzzle after \<open>initializePuzzle\<close>.\<close>

lemma example_client_eqs:
  "acrossClues example_client = map delete_assignment example_across"
  "downClues example_client = map delete_assignment example_down"
  "cellNumbering example_client =
     fold number_down (map delete_assignment example_down)
       (fold number_across (map delete_assignment example_across) Map.empty)"
  "crosswordGrid example_client =
     renderCells (cellNumbering example_client) [[white ''*'', white ''*''], [white ''*'', white ''*'']]"
  by (simp_all add: example_client_def initializePuzzle_Json example_init_def)

subsection \<open>The loop\<close>

text \<open>
  The loop entered after \<open>i\<close> iterations ends after the first iteration \<open>n\<close> that
  stops it, if the fuel reaches that far, and is still running otherwise.
\<close>

lemma loop_exit:
  "truthy_bool r \<or> pauseRequested st \<Longrightarrow> solveAll_loop fuel env i r st = Some (i, st)"
  by (cases fuel) auto

lemma after_Suc_pause:
  "pauseRequested (after env (Suc i) st) \<longleftrightarrow> snd (env i) \<or> pauseRequested (after env i st)"
  by (simp add: solveStep_pauseRequested pauseSolving_def)

lemma loop_stops:
  assumes "stops (env n)" "\<forall>k. i \<le> k \<and> k < n \<longrightarrow> \<not> stops (env k)" "i \<le> n" "n - i < fuel"
    "\<not> truthy_bool r" "\<not> pauseRequested (after env i st0)"
  shows "solveAll_loop fuel env i r (after env i st0) = Some (Suc n, after env (Suc n) st0)"
  using assms
proof (induction fuel arbitrary: i r)
  case 0
  then show ?case by simp
next
  case (Suc fuel)
  obtain response pause where e: "env i = (response, pause)" by (cases "env i")
  let ?st = "if pause then pauseSolving (after env i st0) else after env i st0"
  obtain r' st' where s: "solveStep response ?st = (r', st')" by (cases "solveStep response ?st")
  have st': "st' = after env (Suc i) st0" using e s by simp
  have r': "truthy_bool r' \<longleftrightarrow> solved_true response"
    using solveStep_result [of response ?st] s by simp
  have unfold: "solveAll_loop (Suc fuel) env i r (after env i st0) = solveAll_loop fuel env (Suc i) r' st'"
    using Suc.prems(5,6) e s by simp
  show ?case
  proof (cases "i = n")
    case True
    with Suc.prems(1) e have "pause \<or> solved_true response" by (simp add: stops_def)
    then have "truthy_bool r' \<or> pauseRequested st'"
      using r' e unfolding st' after_Suc_pause by auto
    from loop_exit [OF this] unfold True st' show ?thesis by simp
  next
    case False
    with Suc.prems have lt: "i < n" by simp
    with Suc.prems(2) e have ns: "\<not> pause" "\<not> solved_true response" by (auto simp: stops_def)
    have "solveAll_loop fuel env (Suc i) r' (after env (Suc i) st0) = Some (Suc n, after env (Suc n) st0)"
    proof (rule Suc.IH)
      show "stops (env n)" by fact
      show "\<forall>k. Suc i \<le> k \<and> k < n \<longrightarrow> \<not> stops (env k)" using Suc.prems(2) by auto
      show "Suc i \<le> n" using lt by simp
      show "n - Suc i < fuel" using Suc.prems(4) lt by simp
      show "\<not> truthy_bool r'" using r' ns by simp
      show "\<not> pauseRequested (after env (Suc i) st0)"
        unfolding after_Suc_pause using ns e Suc.prems(6) by simp
    qed
    with unfold st' show ?thesis by simp
  qed
qed

lemma loop_runs_on:
  assumes "\<forall>k. i \<le> k \<and> k < i + fuel \<longrightarrow> \<not> stops (env k)"
    "\<not> truthy_bool r" "\<not> pauseRequested (after env i st0)"
  shows "solveAll_loop fuel env i r (after env i st0) = None"
  using assms
proof (induction fuel arbitrary: i r)
  case 0
  then show ?case by simp
next
  case (Suc fuel)
  obtain response pause where e: "env i = (response, pause)" by (cases "env i")
  let ?st = "if pause then pauseSolving (after env i st0) else after env i st0"
  obtain r' st' where s: "solveStep response ?st = (r', st')" by (cases "solveStep response ?st")
  have st': "st' = after env (Suc i) st0" using e s by simp
  have r': "truthy_bool r' \<longleftrightarrow> solved_true response"
    using solveStep_result [of response ?st] s by simp
  have unfold: "solveAll_loop (Suc fuel) env i r (after env i st0) = solveAll_loop fuel env (Suc i) r' st'"
    using Suc.prems(2,3) e s by simp
  from Suc.prems(1) e have ns: "\<not> pause" "\<not> solved_true response" by (auto simp: stops_def)
  have "solveAll_loop fuel env (Suc i) r' (after env (Suc i) st0) = None"
  proof (rule Suc.IH)
    show "\<forall>k. Suc i \<le> k \<and> k < Suc i + fuel \<longrightarrow> \<not> stops (env k)" using Suc.prems(1) by auto
    show "\<not> truthy_bool r'" using r' ns by simp
    show "\<not> pauseRequested (after env (Suc i) st0)"
      unfolding after_Suc_pause using ns e Suc.prems(3) by simp
  qed
  with unfold st' show ?case by simp
qed

lemma same_puzzle_refl [simp]: "same_puzzle a a"
  by (simp add: same_puzzle_def)

lemma same_puzzle_solveStep:
  "same_puzzle a b \<Longrightarrow> same_puzzle (snd (solveStep r a)) (snd (solveStep r b)) \<and> fst (solveStep r a) = fst (solveStep r b)"
  by (cases r) (simp_all add: same_puzzle_def solveStep_Json solveStep_Rejected solveStep_NotOk)

lemma same_puzzle_after: "same_puzzle a b \<Longrightarrow> same_puzzle (after env k a) (after env k b)"
proof (induction k)
  case 0
  then show ?case by simp
next
  case (Suc k)
  let ?a = "if snd (env k) then pauseSolving (after env k a) else after env k a"
  let ?b = "if snd (env k) then pauseSolving (after env k b) else after env k b"
  from Suc have "same_puzzle ?a ?b"
    by (simp add: same_puzzle_def pauseSolving_def)
  from same_puzzle_solveStep [OF this] show ?case by simp
qed

lemma after_pauseRequested:
  "pauseRequested (after env n st) \<longleftrightarrow> pauseRequested st \<or> (\<exists>k<n. snd (env k))"
proof (induction n)
  case 0
  show ?case by simp
next
  case (Suc n)
  then show ?case unfolding after_Suc_pause by (auto simp: less_Suc_eq)
qed

lemma solveAll_eq:
  "solveAll fuel env st =
     map_option (\<lambda>(n, st'). (n, epilogue st')) (solveAll_loop fuel env 0 (Some False) (prologue st))"
  by (simp add: solveAll_def prologue_def epilogue_def Let_def split: option.splits)

lemma solveAll_stops:
  assumes "stops (env n)" "\<forall>k<n. \<not> stops (env k)" "n < fuel"
  shows "solveAll fuel env st = Some (Suc n, epilogue (after env (Suc n) (prologue st)))"
proof -
  have "solveAll_loop fuel env 0 (Some False) (after env 0 (prologue st)) =
          Some (Suc n, after env (Suc n) (prologue st))"
    using assms by (intro loop_stops) (simp_all add: prologue_def)
  then show ?thesis by (simp add: solveAll_eq)
qed

lemma solveAll_runs_on:
  assumes "\<forall>k<fuel. \<not> stops (env k)"
  shows "solveAll fuel env st = None"
proof -
  have "solveAll_loop fuel env 0 (Some False) (after env 0 (prologue st)) = None"
    using assms by (intro loop_runs_on) (simp_all add: prologue_def)
  then show ?thesis by (simp add: solveAll_eq)
qed

lemma same_puzzle_prologue: "same_puzzle (prologue st) st"
  by (simp add: same_puzzle_def prologue_def)

lemma same_puzzle_epilogue: "same_puzzle (epilogue st) st"
  by (simp add: same_puzzle_def epilogue_def)

lemma same_puzzle_trans: "same_puzzle a b \<Longrightarrow> same_puzzle b c \<Longrightarrow> same_puzzle a c"
  by (simp add: same_puzzle_def)

lemma solveAll_same_puzzle:
  "same_puzzle (epilogue (after env k (prologue a))) (after env k a)"
  by (meson same_puzzle_epilogue same_puzzle_prologue same_puzzle_after same_puzzle_trans)

section \<open>The claims\<close>

subsection \<open>C1\<close>

text \<open>
  Claim C1, as the script has it.  \<open>solveAll\<close> sends one request in each iteration and goes
  on while the value that \<open>solveStep\<close> returned is not true and Pause has not been clicked.
  When iteration \<open>n\<close> is the first whose reply has \<open>solved\<close> true or during which Pause is
  clicked, the loop ends right after it: it has sent \<open>n + 1\<close> requests, and it is still running
  after any smaller number.  The replies before it may report \<open>progress\<close> false, they do
  not end the loop.  Without such an iteration the loop does not end.
\<close>

theorem solveAll_ends_at_first_solved_or_pause:
  "(stops (env n) \<and> (\<forall>k<n. \<not> stops (env k)) \<longrightarrow>
      (n < fuel \<longrightarrow> map_option fst (solveAll fuel env st) = Some (Suc n)) \<and>
      (fuel \<le> n \<longrightarrow> solveAll fuel env st = None)) \<and>
   ((\<forall>k. \<not> stops (env k)) \<longrightarrow> solveAll fuel env st = None)"
proof (intro conjI impI)
  assume "stops (env n) \<and> (\<forall>k<n. \<not> stops (env k))" "n < fuel"
  then show "map_option fst (solveAll fuel env st) = Some (Suc n)"
    using solveAll_stops [of env n fuel st] by simp
next
  assume "stops (env n) \<and> (\<forall>k<n. \<not> stops (env k))" "fuel \<le> n"
  then show "solveAll fuel env st = None"
    by (intro solveAll_runs_on) auto
next
  assume "\<forall>k. \<not> stops (env k)"
  then show "solveAll fuel env st = None"
    by (intro solveAll_runs_on) auto
qed

theorem solveAll_ends_at_first_solved_or_pause_witness:
  "\<not> progress example_backtrack \<and> fst (example_run 1) = Json example_backtrack \<and>
   map_option fst (solveAll 10 example_run example_client) = Some 4 \<and>
   solveAll 3 example_run example_client = None"
  using solveAll_ends_at_first_solved_or_pause [of example_run 3 10 example_client]
    solveAll_ends_at_first_solved_or_pause [of example_run 3 3 example_client]
  by (simp add: stops_def solved_true_def example_run_def example_assign_def
      example_backtrack_def example_solved_def)

text \<open>
  Claim C1 as it was stated fails twice.  When every reply is the exhausted result, with
  \<open>solved\<close> false, the loop is still running after three requests.  When Pause is clicked
  during the second iteration, the loop ends after the second reply although \<open>solved\<close> is
  still null there.
\<close>

theorem solveAll_runs_past_exhausted_and_ends_on_pause:
  "solved example_exhausted = Some False \<and>
   solveAll (Suc (Suc (Suc 0))) example_exhausted_run example_client = None \<and>
   solved example_backtrack = None \<and>
   map_option fst (solveAll (Suc (Suc (Suc 0))) example_paused_run example_client) = Some 2"
  by (simp add: example_exhausted_run_def example_exhausted_def example_paused_run_def
      example_backtrack_def example_assign_def solveAll_def Let_def solveStep_Json
      truthy_bool_eq pauseSolving_def)

subsection \<open>C2\<close>

text \<open>
  Claim C2.  A cell that starts a clue is to show its number.  The numbering map does hold
  the number, and \<open>renderGrid\<close> appends the number to the element of the cell, but for a
  cell that holds a letter the assignment to \<open>textContent\<close> then removes it again.  In the
  small puzzle the cells that start clues 1, 2 and 3 show their numbers after
  \<open>initializePuzzle\<close>.  After the reply that fills in \<open>AT\<close>, the top left cell still starts
  clue 1 and the map still has 1 at its key, yet the cell shows the letter \<open>A\<close> and no
  number, and so does the cell of clue 2.
\<close>

theorem renderGrid_drops_number_of_lettered_clue_start:
  "map start (acrossClues example_assigned) = [(0, 0), (1, 0)] \<and>
   map number (acrossClues example_assigned) = [1, 3] \<and>
   cellNumbering example_assigned (cellKey 0 0) = Some 1 \<and>
   gridData example_assigned =
     Some [[white ''A'', white ''T''], [white ''*'', white ''*'']] \<and>
   map children (crosswordGrid example_client) =
     [[NumberSpan 1], [NumberSpan 2], [NumberSpan 3], []] \<and>
   map children (crosswordGrid example_assigned) =
     [[TextNode ''A''], [TextNode ''T''], [NumberSpan 3], []]"
  by (simp add: example_assigned_def solveStep_Json example_client_eqs example_assign_def
      updated_across_def example_across_def example_down_def delete_assignment_def
      number_across_def number_down_def renderCells_def children_renderCell white_def
      holds_letter_def enumerate_eq_zip upt_rec)

subsection \<open>C3\<close>

text \<open>
  Claim C3, as the script has it.  In clue lists whose numbers are distinct,
  \<open>updateCluesWithAssignments\<close> changes the clues that an entry of the list names by number
  and direction, and only their \<open>assigned\<close> and \<open>confidence\<close>.  Both become those of the
  last such entry, whether the entry carries a confidence or not: the confidence of the
  clue is absent afterwards when that of the entry is.  Every other clue, every other field
  of a clue and the rest of the client stay as they were.  An entry whose number no clue
  of its direction has can be struck from the list without any difference to the result.
\<close>

theorem updateCluesWithAssignments_sets_matched_clues:
  assumes "distinct (map number (acrossClues st))" and "distinct (map number (downClues st))"
  shows "updateCluesWithAssignments (Some es) st =
           st\<lparr>acrossClues :=
                 map (\<lambda>c. case matched A es c of None \<Rightarrow> c
                          | Some e \<Rightarrow> c\<lparr>assigned := assigned e, confidence := confidence e\<rparr>)
                   (acrossClues st),
              downClues :=
                 map (\<lambda>c. case matched D es c of None \<Rightarrow> c
                          | Some e \<Rightarrow> c\<lparr>assigned := assigned e, confidence := confidence e\<rparr>)
                   (downClues st)\<rparr>
       \<and> ((\<forall>c \<in> set (if direction e = A then acrossClues st else downClues st).
               number c \<noteq> number e) \<longrightarrow>
            updateCluesWithAssignments (Some (es1 @ e # es2)) st =
            updateCluesWithAssignments (Some (es1 @ es2)) st)"
proof -
  have eq: "updateCluesWithAssignments (Some l) st =
           st\<lparr>acrossClues :=
                 map (\<lambda>c. case matched A l c of None \<Rightarrow> c
                          | Some e \<Rightarrow> c\<lparr>assigned := assigned e, confidence := confidence e\<rparr>)
                   (acrossClues st),
              downClues :=
                 map (\<lambda>c. case matched D l c of None \<Rightarrow> c
                          | Some e \<Rightarrow> c\<lparr>assigned := assigned e, confidence := confidence e\<rparr>)
                   (downClues st)\<rparr>" for l
    using assms
    by (simp add: updateCluesWithAssignments_eq updated_across_def updated_down_def
        fold_assign_found_distinct direction_not_A set_assignment_def cong: option.case_cong)
  have struck: "updateCluesWithAssignments (Some (es1 @ e # es2)) st =
                updateCluesWithAssignments (Some (es1 @ es2)) st"
    if "\<forall>c \<in> set (if direction e = A then acrossClues st else downClues st). number c \<noteq> number e"
  proof -
    have "matched A (es1 @ e # es2) c = matched A (es1 @ es2) c" if "c \<in> set (acrossClues st)" for c
      using that \<open>\<forall>c \<in> set (if direction e = A then acrossClues st else downClues st). number c \<noteq> number e\<close>
      by (intro matched_unmatched_entry) (auto split: if_splits)
    moreover have "matched D (es1 @ e # es2) c = matched D (es1 @ es2) c" if "c \<in> set (downClues st)" for c
      using that \<open>\<forall>c \<in> set (if direction e = A then acrossClues st else downClues st). number c \<noteq> number e\<close>
      by (intro matched_unmatched_entry) (auto split: if_splits)
    ultimately show ?thesis
      unfolding eq by (simp cong: map_cong)
  qed
  from eq [of es] struck show ?thesis by blast
qed

theorem updateCluesWithAssignments_sets_matched_clues_witness:
  "map assigned (acrossClues (updateCluesWithAssignments (Some example_entries) example_client)) =
     [None, Some ''NO''] \<and>
   map assigned (downClues (updateCluesWithAssignments (Some example_entries) example_client)) =
     [Some ''AN'', Some ''TO''] \<and>
   map confidence (downClues (updateCluesWithAssignments (Some example_entries) example_client)) =
     [Some (7 / 10), Some (3 / 5)] \<and>
   map clue_text (downClues (updateCluesWithAssignments (Some example_entries) example_client)) =
     [''Article'', ''Toward''] \<and>
   map confidence (acrossClues example_assigned) = [Some (9 / 10), None] \<and>
   map confidence (acrossClues (updateCluesWithAssignments (Some [example_unrated]) example_assigned)) =
     [None, None] \<and>
   map assigned (acrossClues (updateCluesWithAssignments (Some [example_unrated]) example_assigned)) =
     [Some ''AS'', None] \<and>
   downClues (updateCluesWithAssignments (Some [example_unrated]) example_assigned) =
     downClues example_assigned"
proof -
  have clues: "acrossClues example_client = map delete_assignment example_across"
    "downClues example_client = map delete_assignment example_down"
    by (simp_all add: example_client_def initializePuzzle_Json example_init_def)
  have assigned: "acrossClues example_assigned =
      [\<lparr>number = 1, assigned = Some ''AT'', confidence = Some (9 / 10),
        start = (0, 0), clue_length = 2, clue_text = ''Near''\<rparr>,
       \<lparr>number = 3, assigned = None, confidence = None,
        start = (1, 0), clue_length = 2, clue_text = ''Refusal''\<rparr>]"
    "downClues example_assigned = map delete_assignment example_down"
    by (simp_all add: example_assigned_def solveStep_Json clues example_assign_def
        updated_across_def updated_down_def example_across_def delete_assignment_def)
  have d1: "distinct (map number (acrossClues example_client))"
    "distinct (map number (downClues example_client))"
    by (simp_all add: clues example_across_def example_down_def delete_assignment_def)
  have d2: "distinct (map number (acrossClues example_assigned))"
    "distinct (map number (downClues example_assigned))"
    by (simp_all add: assigned example_down_def delete_assignment_def)
  from updateCluesWithAssignments_sets_matched_clues [OF d1, of example_entries]
    updateCluesWithAssignments_sets_matched_clues [OF d2, of "[example_unrated]"]
  show ?thesis
    by (simp add: clues assigned example_across_def example_down_def delete_assignment_def
        example_entries_def example_unrated_def matched_def)
qed

text \<open>
  Claim C3 as it was stated fails.  After the first assignment clue 1 across has the
  confidence 9/10.  An entry for it that carries an answer and no confidence does not leave
  that confidence as it was: the clue has none afterwards.
\<close>

theorem unrated_entry_erases_confidence:
  "map confidence (acrossClues example_assigned) = [Some (9 / 10), None] \<and>
   confidence example_unrated = None \<and>
   map confidence (acrossClues (updateCluesWithAssignments (Some [example_unrated]) example_assigned)) =
     [None, None] \<and>
   map assigned (acrossClues (updateCluesWithAssignments (Some [example_unrated]) example_assigned)) =
     [Some ''AS'', None]"
  by (simp add: example_assigned_def solveStep_Json example_client_eqs example_assign_def
      updated_across_def example_across_def delete_assignment_def example_unrated_def
      updateCluesWithAssignments_eq)

subsection \<open>C4\<close>

text \<open>
  Claim C4.  After an \<open>initializePuzzle\<close> that got a reply, the grid, the two clue lists and
  the numbering map are functions of the reply alone: the grid is the grid of the reply, the
  clue lists are those of the reply without their \<open>assigned\<close> and \<open>confidence\<close>, and the
  numbering map is built from these lists starting with the empty map.  Nothing of the
  state before the call is left in them, and no clue has an answer or a confidence.
\<close>

theorem initializePuzzle_rebuilds_state:
  "gridData (initializePuzzle (Json d) st) = Some (grid d) \<and>
   acrossClues (initializePuzzle (Json d) st) = map delete_assignment (across_clues d) \<and>
   downClues (initializePuzzle (Json d) st) = map delete_assignment (down_clues d) \<and>
   cellNumbering (initializePuzzle (Json d) st) =
     fold number_down (map delete_assignment (down_clues d))
       (fold number_across (map delete_assignment (across_clues d)) Map.empty) \<and>
   same_puzzle (initializePuzzle (Json d) st) (initializePuzzle (Json d) st') \<and>
   (\<forall>c \<in> set (acrossClues (initializePuzzle (Json d) st)) \<union>
           set (downClues (initializePuzzle (Json d) st)).
      assigned c = None \<and> confidence c = None)"
  by (auto simp: initializePuzzle_Json same_puzzle_def delete_assignment_def)

theorem initializePuzzle_rebuilds_state_witness:
  "map assigned (acrossClues (initializePuzzle (Json example_init) example_previous)) = [None, None] \<and>
   map confidence (acrossClues (initializePuzzle (Json example_init) example_previous)) = [None, None] \<and>
   map number (acrossClues (initializePuzzle (Json example_init) example_previous)) = [1, 3] \<and>
   cellNumbering example_previous (cellKey 5 5) = Some 7 \<and>
   cellNumbering (initializePuzzle (Json example_init) example_previous) (cellKey 5 5) = None \<and>
   cellNumbering (initializePuzzle (Json example_init) example_previous) (cellKey 0 1) = Some 2"
  using initializePuzzle_rebuilds_state [of example_init example_previous example_page]
  by (simp add: example_init_def example_across_def example_down_def example_previous_def
      delete_assignment_def number_across_def number_down_def)

subsection \<open>C5\<close>

text \<open>
  Claim C5, as the script has it.  The status line shows the message of the reply.  It gets
  the class \<open>correct\<close> when the reply has \<open>solved\<close> true.  Otherwise it gets the class
  \<open>incorrect\<close> exactly when the reply has \<open>progress\<close> false, whether \<open>solved\<close> is null or
  false, and no class when \<open>progress\<close> is true.
\<close>

theorem solveStep_status_styling:
  "solutionStatus_className (snd (solveStep (Json d) st)) =
     (if solved d = Some True then [''correct'']
      else if \<not> progress d then [''incorrect''] else []) \<and>
   solutionStatus_textContent (snd (solveStep (Json d) st)) =
     (case message d of None \<Rightarrow> ''Solving step...''
      | Some t \<Rightarrow> if t \<noteq> [] then t else ''Solving step...'')"
  by (simp add: solveStep_Json status_class_def status_text_def)

theorem solveStep_status_styling_witness:
  "solutionStatus_className (snd (solveStep (Json example_exhausted) example_previous)) = [''incorrect''] \<and>
   solutionStatus_className (snd (solveStep (Json example_assign) example_previous)) = [] \<and>
   solutionStatus_className (snd (solveStep (Json example_solved) example_previous)) = [''correct''] \<and>
   solutionStatus_textContent (snd (solveStep (Json example_assign) example_previous)) = ''Assigned AT''"
  using solveStep_status_styling [of example_exhausted example_previous]
    solveStep_status_styling [of example_assign example_previous]
    solveStep_status_styling [of example_solved example_previous]
  by (simp add: example_exhausted_def example_assign_def example_solved_def)

text \<open>
  Claim C5 as it was stated fails: the reply of an ordinary backtracking step, with
  \<open>progress\<close> false and \<open>solved\<close> still null, leaves the status line with the class
  \<open>incorrect\<close>.
\<close>

theorem backtracking_step_styled_incorrect:
  "\<not> progress example_backtrack \<and> solved example_backtrack = None \<and>
   ''incorrect'' \<in> set (solutionStatus_className (snd (solveStep (Json example_backtrack) example_client)))"
  by (simp add: solveStep_def runSolveStep_def updateCluesWithAssignments_eq renderGrid_Some
      renderClues_def classList_add_def Let_def example_backtrack_def)

subsection \<open>C6\<close>

text \<open>
  Claim C6.  When Pause is clicked during iteration \<open>n\<close> of \<open>solveAll\<close>, and nothing has
  ended the loop before, the request of that iteration is still answered and its reply
  applied: \<open>solveAll\<close> returns after \<open>n + 1\<close> whole steps with the grid, the clue lists and
  the numbering that these steps have left: the grid is that of the last reply and the clue
  lists carry its assignments.  The
  Solve Step and Solve All buttons are enabled again, the Pause button is disabled and the
  status reads \<open>Paused.\<close>.  A later \<open>solveStep\<close> works on that puzzle, and a later \<open>solveAll\<close>
  runs its loop again and leaves what its steps make of that puzzle.
\<close>

theorem pause_ends_solveAll_after_a_whole_step:
  assumes "snd (env n)" and "\<forall>k<n. \<not> stops (env k)" and "n < fuel"
  shows "\<exists>st'. solveAll fuel env st = Some (Suc n, st') \<and>
           same_puzzle st' (after env (Suc n) st) \<and>
           (\<forall>d. fst (env n) = Json d \<longrightarrow>
              gridData st' = Some (grid d) \<and>
              acrossClues st' =
                acrossClues (updateCluesWithAssignments (assigned_clues d) (after env n st)) \<and>
              downClues st' =
                downClues (updateCluesWithAssignments (assigned_clues d) (after env n st))) \<and>
           \<not> solveStepBtn_disabled st' \<and> \<not> solveAllBtn_disabled st' \<and> pauseBtn_disabled st' \<and>
           solutionStatus_textContent st' = ''Paused.'' \<and>
           (\<forall>r. same_puzzle (snd (solveStep r st')) (snd (solveStep r (after env (Suc n) st)))) \<and>
           (\<forall>env' m fuel'. stops (env' m) \<and> (\<forall>k<m. \<not> stops (env' k)) \<and> m < fuel' \<longrightarrow>
              (\<exists>st''. solveAll fuel' env' st' = Some (Suc m, st'') \<and>
                      same_puzzle st'' (after env' (Suc m) (after env (Suc n) st))))"
proof -
  let ?loop = "after env (Suc n) (prologue st)"
  let ?st' = "epilogue ?loop"
  from assms(1) have stop: "stops (env n)" by (simp add: stops_def)
  from solveAll_stops [OF stop assms(2,3)]
  have run: "solveAll fuel env st = Some (Suc n, ?st')" .
  have paused: "pauseRequested ?loop"
    unfolding after_pauseRequested using assms(1) by auto
  have same: "same_puzzle ?st' (after env (Suc n) st)" by (rule solveAll_same_puzzle)
  have grid: "gridData ?st' = Some (grid d) \<and>
      acrossClues ?st' = acrossClues (updateCluesWithAssignments (assigned_clues d) (after env n st)) \<and>
      downClues ?st' = downClues (updateCluesWithAssignments (assigned_clues d) (after env n st))"
    if "fst (env n) = Json d" for d
  proof -
    from same have "gridData ?st' = gridData (after env (Suc n) st)"
      "acrossClues ?st' = acrossClues (after env (Suc n) st)"
      "downClues ?st' = downClues (after env (Suc n) st)"
      by (simp_all add: same_puzzle_def)
    with that show ?thesis
      by (simp add: solveStep_Json updateCluesWithAssignments_eq pauseSolving_def)
  qed
  have buttons: "\<not> solveStepBtn_disabled ?st' \<and> \<not> solveAllBtn_disabled ?st' \<and> pauseBtn_disabled ?st' \<and>
      solutionStatus_textContent ?st' = ''Paused.''"
    using paused by (simp add: epilogue_def)
  have step: "same_puzzle (snd (solveStep r ?st')) (snd (solveStep r (after env (Suc n) st)))" for r
    using same_puzzle_solveStep [OF same] by simp
  have again: "\<exists>st''. solveAll fuel' env' ?st' = Some (Suc m, st'') \<and>
                      same_puzzle st'' (after env' (Suc m) (after env (Suc n) st))"
    if "stops (env' m) \<and> (\<forall>k<m. \<not> stops (env' k)) \<and> m < fuel'" for env' m fuel'
  proof -
    from that solveAll_stops [of env' m fuel' ?st']
    have "solveAll fuel' env' ?st' = Some (Suc m, epilogue (after env' (Suc m) (prologue ?st')))" by simp
    moreover have "same_puzzle (epilogue (after env' (Suc m) (prologue ?st'))) (after env' (Suc m) (after env (Suc n) st))"
      by (meson solveAll_same_puzzle same same_puzzle_after same_puzzle_trans)
    ultimately show ?thesis by blast
  qed
  from run same grid buttons step again show ?thesis by blast
qed

theorem pause_ends_solveAll_after_a_whole_step_witness:
  "\<exists>st'. solveAll 10 example_paused_run example_client = Some (2, st') \<and>
          gridData st' = Some (grid example_backtrack) \<and>
          \<not> solveStepBtn_disabled st' \<and> \<not> solveAllBtn_disabled st' \<and> pauseBtn_disabled st' \<and>
          solutionStatus_textContent st' = ''Paused.''"
proof -
  have "snd (example_paused_run 1)" "\<forall>k<1. \<not> stops (example_paused_run k)" "(1::nat) < 10"
    by (simp_all add: example_paused_run_def stops_def solved_true_def example_assign_def)
  from pause_ends_solveAll_after_a_whole_step [OF this, of example_client]
  obtain st' where "solveAll 10 example_paused_run example_client = Some (Suc 1, st')"
    "\<forall>d. fst (example_paused_run 1) = Json d \<longrightarrow>
       gridData st' = Some (grid d) \<and>
       acrossClues st' =
         acrossClues (updateCluesWithAssignments (assigned_clues d) (after example_paused_run 1 example_client)) \<and>
       downClues st' =
         downClues (updateCluesWithAssignments (assigned_clues d) (after example_paused_run 1 example_client))"
    "\<not> solveStepBtn_disabled st'" "\<not> solveAllBtn_disabled st'" "pauseBtn_disabled st'"
    "solutionStatus_textContent st' = ''Paused.''"
    by blast
  then show ?thesis by (auto simp: example_paused_run_def)
qed

subsection \<open>C8\<close>

text \<open>
  Claim C8.  \<open>renderGrid\<close> appends one element for each cell of the snapshot, row by row.
  The element shows a letter exactly when its cell is white and its \<open>char\<close> is there, not
  empty and not the placeholder \<open>*\<close>; the letter is then the \<open>char\<close> of the cell.  The
  element of a black cell has no child at all, neither a number nor a letter.
\<close>

theorem renderGrid_shows_letters_of_white_cells:
  assumes "gridData st = Some g"
  shows "\<exists>st'. renderGrid st = Inr st' \<and>
           list_all2 (\<lambda>c el. (shows_letter el \<longleftrightarrow> \<not> is_black c \<and> holds_letter c)
                          \<and> (shows_letter el \<longrightarrow> children el = [TextNode (the (char c))])
                          \<and> (is_black c \<longrightarrow> children el = []))
             (concat g) (crosswordGrid st')"
proof -
  have "list_all2 (\<lambda>c el. (shows_letter el \<longleftrightarrow> \<not> is_black c \<and> holds_letter c)
                          \<and> (shows_letter el \<longrightarrow> children el = [TextNode (the (char c))])
                          \<and> (is_black c \<longrightarrow> children el = []))
             (concat g) (renderCells (cellNumbering st) g)"
    by (rule list_all2_renderCells) (simp add: shows_letter_def children_renderCell)
  with renderGrid_Some [OF assms] show ?thesis by simp
qed

theorem renderGrid_shows_letters_of_white_cells_witness:
  "\<exists>st'. renderGrid (example_previous\<lparr>gridData := Some example_grid\<rparr>) = Inr st' \<and>
          map shows_letter (crosswordGrid st') = [True, False, False, False] \<and>
          children (crosswordGrid st' ! 0) = [TextNode ''A''] \<and>
          children (crosswordGrid st' ! 2) = []"
proof -
  have "gridData (example_previous\<lparr>gridData := Some example_grid\<rparr>) = Some example_grid" by simp
  from renderGrid_shows_letters_of_white_cells [OF this]
  show ?thesis
    by (auto simp: example_grid_def white_def holds_letter_def list_all2_Cons1)
qed

subsection \<open>C9\<close>

text \<open>
  Claim C9.  A \<open>solveStep\<close> whose request fails, by a rejected promise or by a response that
  is not ok, returns \<open>false\<close> and leaves the client as it was but for the status line: the
  text becomes the error message, and the classes that the step cleared at its start stay
  cleared.  Grid, clue lists, numbering, buttons and the rendered page are untouched.
\<close>

theorem solveStep_failure_changes_status_only:
  assumes "r = Rejected m \<or> r = NotOk"
  shows "fst (solveStep r st) = Some False \<and>
         gridData (snd (solveStep r st)) = gridData st \<and>
         acrossClues (snd (solveStep r st)) = acrossClues st \<and>
         downClues (snd (solveStep r st)) = downClues st \<and>
         snd (solveStep r st) =
           st\<lparr>solutionStatus_textContent :=
                 ''Error: '' @ (case r of Rejected m' \<Rightarrow> m' | _ \<Rightarrow> ''Failed to solve step''),
              solutionStatus_className := []\<rparr>"
  using assms by (auto simp: solveStep_Rejected solveStep_NotOk)

theorem solveStep_failure_changes_status_only_witness:
  "fst (solveStep NotOk example_previous) = Some False \<and>
   gridData (snd (solveStep NotOk example_previous)) = Some [[white ''Z'', white ''Z'']] \<and>
   solutionStatus_textContent (snd (solveStep NotOk example_previous)) = ''Error: Failed to solve step''"
  using solveStep_failure_changes_status_only [of NotOk "[]" example_previous]
  by (simp add: example_previous_def)

subsection \<open>C10\<close>

text \<open>
  Claim C10.  \<open>createCellNumbering\<close> reads nothing but the two clue lists: from two states
  of the client that agree on \<open>acrossClues\<close> and \<open>downClues\<close>, whatever else they hold and
  whatever numbering an earlier call has left, it builds the same numbering map.
\<close>

theorem createCellNumbering_depends_on_clues_only:
  assumes "acrossClues s1 = acrossClues s2" and "downClues s1 = downClues s2"
  shows "cellNumbering (createCellNumbering s1) = cellNumbering (createCellNumbering s2)"
  using assms by (simp add: cellNumbering_createCellNumbering)

theorem createCellNumbering_depends_on_clues_only_witness:
  "cellNumbering (createCellNumbering
      (example_previous\<lparr>acrossClues := example_across, downClues := example_down\<rparr>)) =
   cellNumbering (createCellNumbering
      (example_page\<lparr>acrossClues := example_across, downClues := example_down\<rparr>))"
  using createCellNumbering_depends_on_clues_only
    [of "example_previous\<lparr>acrossClues := example_across, downClues := example_down\<rparr>"
        "example_page\<lparr>acrossClues := example_across, downClues := example_down\<rparr>"]
  by simp

end
